theory Spec2Isabelle
  imports Main "HOL-Library.Sublist" "HOL-Library.Char_ord" "HOL-Library.List_Lexorder"
begin

section \<open>Strings\<close>

text \<open>
  Go strings are byte sequences; they are modelled as \<open>string\<close> (a list of characters).
  \<open>strings.Contains s sub\<close> is \<open>sublist sub s\<close> and \<open>strings.HasPrefix s p\<close> is
  \<open>prefix p s\<close>.
\<close>

text \<open>\<open>strings.Join\<close>: the elements with the separator between neighbours.\<close>

fun strings_Join :: "string list \<Rightarrow> string \<Rightarrow> string" where
  "strings_Join [] sep = []"
| "strings_Join [x] sep = x"
| "strings_Join (x # y # ys) sep = x @ sep @ strings_Join (y # ys) sep"

text \<open>
  \<open>strings.ReplaceAll s old new\<close>: the occurrences of \<open>old\<close> are found from left to right
  and do not overlap. When \<open>old\<close> is empty Go inserts \<open>new\<close> at the start and after every
  character.
\<close>

fun strings_ReplaceAll :: "string \<Rightarrow> string \<Rightarrow> string \<Rightarrow> string" where
  "strings_ReplaceAll [] old new = (if old = [] then new else [])"
| "strings_ReplaceAll (c # cs) old new =
     (if old = [] then new @ c # strings_ReplaceAll cs old new
      else if prefix old (c # cs)
      then new @ strings_ReplaceAll (drop (length old) (c # cs)) old new
      else c # strings_ReplaceAll cs old new)"

declare strings_ReplaceAll.simps [simp del]

section \<open>Errors\<close>

text \<open>The error numbers of the system calls the program makes.\<close>

datatype errno = ENOENT | ENOTDIR | EISDIR | ENOTEMPTY | EINVAL | EBUSY | ELOOP | EEXIST | EBADF

fun strerror :: "errno \<Rightarrow> string" where
  "strerror ENOENT = ''no such file or directory''"
| "strerror ENOTDIR = ''not a directory''"
| "strerror EISDIR = ''is a directory''"
| "strerror ENOTEMPTY = ''directory not empty''"
| "strerror EINVAL = ''invalid argument''"
| "strerror EBUSY = ''device or resource busy''"
| "strerror ELOOP = ''too many levels of symbolic links''"
| "strerror EEXIST = ''file exists''"
| "strerror EBADF = ''bad file descriptor''"

text \<open>
  The error values of the program: a failed system call (operation, path, error number),
  a YAML syntax error, the validator's list of failed fields, a subprocess that did not
  exit with status zero, and an error made by \<open>fmt.Errorf\<close>.
\<close>

datatype error =
    PathError string string errno
  | YamlError string
  | ValidationErrors "string list"
  | ExitError string
  | Errorf string

text \<open>The text of an error, as \<open>%v\<close> prints it.\<close>

fun validation_message :: "string \<Rightarrow> string" where
  "validation_message f =
     ''Key: '' @ [CHR 0x27] @ ''HelmChart.'' @ f @ [CHR 0x27] @
     '' Error:Field validation for '' @ [CHR 0x27] @ f @ [CHR 0x27] @
     '' failed on the '' @ [CHR 0x27] @ ''required'' @ [CHR 0x27] @ '' tag''"

fun Error :: "error \<Rightarrow> string" where
  "Error (PathError op p e) = op @ '' '' @ p @ '': '' @ strerror e"
| "Error (YamlError m) = m"
| "Error (ValidationErrors fs) = strings_Join (map validation_message fs) [CHR 0x0A]"
| "Error (ExitError m) = m"
| "Error (Errorf m) = m"

text \<open>\<open>os.IsNotExist\<close>: the error is a system call's \<open>ENOENT\<close>.\<close>

fun IsNotExist :: "error \<Rightarrow> bool" where
  "IsNotExist (PathError op p e) = (e = ENOENT)"
| "IsNotExist e = False"

section \<open>The chart descriptor\<close>

record PostProcess =
  GenerateKustomization :: bool

record HelmChart =
  Chart :: string
  Version :: string
  Repository :: string
  Name :: string
  Namespace :: string
  Values :: "string list"
  SkipCRDs :: bool
  PostProcess :: PostProcess
  OutputDir :: string
  ApiVersions :: "string list"

text \<open>
  \<open>validate.Struct\<close> on a \<open>HelmChart\<close>: the fields tagged \<open>validate:"required"\<close> are
  \<open>Chart\<close>, \<open>Version\<close>, \<open>Repository\<close> and \<open>Name\<close>; a required string fails when it is
  the zero value, the empty string. The failed fields are reported in declaration order.
\<close>

definition required_failures :: "HelmChart \<Rightarrow> string list" where
  "required_failures c =
     (if Chart c = [] then [''Chart''] else []) @
     (if Version c = [] then [''Version''] else []) @
     (if Repository c = [] then [''Repository''] else []) @
     (if Name c = [] then [''Name''] else [])"

definition validate_Struct :: "HelmChart \<Rightarrow> error option" where
  "validate_Struct c =
     (if required_failures c = [] then None else Some (ValidationErrors (required_failures c)))"

section \<open>Paths\<close>

text \<open>Splitting a string at every occurrence of a separator, as \<open>strings.Split\<close> does.\<close>

fun split_on :: "char \<Rightarrow> string \<Rightarrow> string list" where
  "split_on sep [] = [[]]"
| "split_on sep (c # cs) =
     (if c = sep then [] # split_on sep cs
      else (case split_on sep cs of [] \<Rightarrow> [[c]] | x # xs \<Rightarrow> (c # x) # xs))"

definition rooted :: "string \<Rightarrow> bool" where
  "rooted p = (case p of [] \<Rightarrow> False | c # _ \<Rightarrow> c = CHR ''/'')"

text \<open>
  The element-wise part of \<open>path.Clean\<close> (Unix): empty elements and \<open>.\<close> are dropped,
  \<open>..\<close> removes the element before it; at the root it is dropped, and at the start of a
  relative path it is kept. \<open>acc\<close> holds the elements kept so far.
\<close>

fun clean_elems :: "bool \<Rightarrow> string list \<Rightarrow> string list \<Rightarrow> string list" where
  "clean_elems r acc [] = acc"
| "clean_elems r acc (c # cs) =
     (if c = [] \<or> c = ''.'' then clean_elems r acc cs
      else if c = ''..'' then
        (if acc \<noteq> [] \<and> last acc \<noteq> ''..'' then clean_elems r (butlast acc) cs
         else if r then clean_elems r acc cs
         else clean_elems r (acc @ [c]) cs)
      else clean_elems r (acc @ [c]) cs)"


definition Clean :: "string \<Rightarrow> string" where
  "Clean p =
     (let out = (if rooted p then ''/'' else []) @
                strings_Join (clean_elems (rooted p) [] (split_on CHR ''/'' p)) ''/''
      in if out = [] then ''.'' else out)"

text \<open>
  \<open>path.Join\<close> and \<open>filepath.Join\<close> (the same function on Unix): empty elements are
  ignored, the rest is joined with \<open>/\<close> and cleaned; with no element left the result is
  the empty string. The cleaning is lexical: it does not look at the file system.
\<close>

definition path_Join :: "string list \<Rightarrow> string" where
  "path_Join elems =
     (let es = filter (\<lambda>e. e \<noteq> []) elems
      in if es = [] then [] else Clean (strings_Join es ''/''))"

text \<open>
  What the system sees of a path: its elements (what stands between the slashes, the
  empty elements left out), whether it starts at the root, and whether it ends with a
  slash.
\<close>

definition path_elems :: "string \<Rightarrow> string list" where
  "path_elems p = filter (\<lambda>c. c \<noteq> []) (split_on CHR ''/'' p)"

definition trailing :: "string \<Rightarrow> bool" where
  "trailing p = (p \<noteq> [] \<and> last p = CHR ''/'')"

text \<open>A name that a directory entry can have.\<close>

definition plain :: "string \<Rightarrow> bool" where
  "plain x = (x \<noteq> [] \<and> x \<noteq> ''.'' \<and> x \<noteq> ''..'' \<and> CHR ''/'' \<notin> set x)"

section \<open>The file system\<close>

text \<open>
  A file system entry is a regular file with its contents, a symbolic link with its
  target, or a directory with its named entries. \<open>os.FileInfo.IsDir\<close> is true of
  directories only. Other kinds of entries (devices, pipes, sockets), owners and
  permissions are not modelled: every operation is permitted.
\<close>

datatype node = Regular string | Symlink string | Directory "(string \<times> node) list"

fun IsDir :: "node \<Rightarrow> bool" where
  "IsDir (Directory es) = True"
| "IsDir n = False"

text \<open>
  \<open>lookup t q\<close> is what lies in the tree \<open>t\<close> at the end of the names \<open>q\<close>, every name
  but the last one being a directory; no link is followed.
\<close>

fun lookup :: "node \<Rightarrow> string list \<Rightarrow> node option"
  and lookup_in :: "(string \<times> node) list \<Rightarrow> string \<Rightarrow> string list \<Rightarrow> node option" where
  "lookup n [] = Some n"
| "lookup (Directory es) (c # cs) = lookup_in es c cs"
| "lookup (Regular s) (c # cs) = None"
| "lookup (Symlink s) (c # cs) = None"
| "lookup_in [] c cs = None"
| "lookup_in ((k, n) # es) c cs = (if k = c then lookup n cs else lookup_in es c cs)"

text \<open>
  \<open>alter f q t\<close> replaces what is at \<open>q\<close> (nothing, or a node) by \<open>f\<close> of it, when
  everything above \<open>q\<close> is a directory; the root itself is never replaced.
\<close>

fun alter :: "(node option \<Rightarrow> node option) \<Rightarrow> string list \<Rightarrow> node \<Rightarrow> node"
  and alter_in :: "(node option \<Rightarrow> node option) \<Rightarrow> string \<Rightarrow> string list \<Rightarrow>
                   (string \<times> node) list \<Rightarrow> (string \<times> node) list" where
  "alter f [] n = n"
| "alter f (c # cs) (Directory es) = Directory (alter_in f c cs es)"
| "alter f (c # cs) (Regular s) = Regular s"
| "alter f (c # cs) (Symlink s) = Symlink s"
| "alter_in f c cs [] =
     (if cs = [] then (case f None of None \<Rightarrow> [] | Some n' \<Rightarrow> [(c, n')]) else [])"
| "alter_in f c cs ((k, n) # es) =
     (if k = c then
        (if cs = [] then
           (case f (Some n) of
              None \<Rightarrow> filter (\<lambda>e. fst e \<noteq> c) es
            | Some n' \<Rightarrow> (k, n') # es)
         else (k, alter f cs n) # es)
      else (k, n) # alter_in f c cs es)"

text \<open>The directory at \<open>q\<close> loses its entries; this can be the root.\<close>

definition empty_dir :: "string list \<Rightarrow> node \<Rightarrow> node" where
  "empty_dir q t = (if q = [] then Directory [] else alter (\<lambda>_. Some (Directory [])) q t)"

subsection \<open>Name resolution\<close>

text \<open>
  The system resolves a path element by element, in the tree as it is: from a directory
  \<open>cur\<close> (given by the names that lead to it from the root), \<open>.\<close> stays, \<open>..\<close> goes to
  the directory above (the root is above itself), and a name goes to the entry of that
  name, which must exist and be a directory when more elements follow. A symbolic link
  that is not the last element is followed: its target is resolved from the directory of
  the link, or from the root when it starts with \<open>/\<close>. A link that is the last element is
  followed when the call follows links (\<open>follow\<close>) or the path ends with a slash
  (\<open>slash\<close>), which also asks for a directory. At most \<open>n\<close> links are followed (the
  system allows 40), then the call fails with \<open>ELOOP\<close>. A call that may create the file
  (\<open>creat\<close>) refuses a last name that is followed by a slash.

  The result is the place that was found, or the place of a last name that does not
  exist in a directory that does, or the error.
\<close>

datatype resolved = Found "string list" | Missing "string list" | Failed errno

fun namei :: "nat \<Rightarrow> bool \<Rightarrow> bool \<Rightarrow> bool \<Rightarrow> node \<Rightarrow> string list \<Rightarrow> string list \<Rightarrow> resolved" where
  "namei n follow creat slash t cur [] =
     (case lookup t cur of
        Some (Directory es) \<Rightarrow> Found cur
      | Some _ \<Rightarrow> Failed ENOTDIR
      | None \<Rightarrow> Failed ENOENT)"
| "namei n follow creat slash t cur (c # cs) =
     (case lookup t cur of
        Some (Directory es) \<Rightarrow>
          if c = ''.'' then namei n follow creat slash t cur cs
          else if c = ''..'' then namei n follow creat slash t (butlast cur) cs
          else if cs = [] \<and> slash \<and> creat then Failed EISDIR
          else (case lookup_in es c [] of
                  None \<Rightarrow> if cs = [] then Missing (cur @ [c]) else Failed ENOENT
                | Some (Directory es') \<Rightarrow> namei n follow creat slash t (cur @ [c]) cs
                | Some (Regular s) \<Rightarrow>
                    if cs = [] \<and> \<not> slash then Found (cur @ [c]) else Failed ENOTDIR
                | Some (Symlink tgt) \<Rightarrow>
                    if cs = [] \<and> \<not> follow \<and> \<not> slash then Found (cur @ [c])
                    else if n = 0 then Failed ELOOP
                    else if tgt = [] then Failed ENOENT
                    else namei (n - 1) follow creat (slash \<or> (cs = [] \<and> trailing tgt)) t
                           (if rooted tgt then [] else cur) (path_elems tgt @ cs))
      | Some _ \<Rightarrow> Failed ENOTDIR
      | None \<Rightarrow> Failed ENOENT)"

text \<open>A path given to a system call, resolved from the working directory \<open>base\<close>.\<close>

definition resolve :: "bool \<Rightarrow> bool \<Rightarrow> node \<Rightarrow> string list \<Rightarrow> string \<Rightarrow> resolved" where
  "resolve follow creat t base p =
     (if p = [] then Failed ENOENT
      else namei 40 follow creat (trailing p) t (if rooted p then [] else base) (path_elems p))"

text \<open>
  The calls that make or remove an entry resolve the path up to its last element, to
  the directory \<open>d\<close> that holds it, and look at the last element as it is: the root (the
  path has no element), \<open>.\<close>, \<open>..\<close>, or a name.
\<close>

datatype last_elem = Root | Dot "string list" | DotDot "string list" | Norm "string list" string

definition parent_last :: "node \<Rightarrow> string list \<Rightarrow> string \<Rightarrow> errno + last_elem" where
  "parent_last t base p =
     (if p = [] then Inl ENOENT
      else if path_elems p = [] then Inr Root
      else case namei 40 True False True t (if rooted p then [] else base) (butlast (path_elems p)) of
             Found d \<Rightarrow>
               Inr (if last (path_elems p) = ''.'' then Dot d
                    else if last (path_elems p) = ''..'' then DotDot d
                    else Norm d (last (path_elems p)))
           | Missing q \<Rightarrow> Inl ENOENT
           | Failed e \<Rightarrow> Inl e)"

text \<open>
  \<open>unlink\<close> removes a file or a link, never a directory; \<open>rmdir\<close> removes an empty
  directory that is named by a name; \<open>mkdir\<close> makes a directory where nothing is. The
  error numbers are those of Linux.
\<close>

definition syscall_Unlink :: "node \<Rightarrow> string list \<Rightarrow> string \<Rightarrow> errno option \<times> node" where
  "syscall_Unlink t base p =
     (case parent_last t base p of
        Inl e \<Rightarrow> (Some e, t)
      | Inr (Norm d l) \<Rightarrow>
          (case lookup t (d @ [l]) of
             None \<Rightarrow> (Some ENOENT, t)
           | Some (Directory es) \<Rightarrow> (Some EISDIR, t)
           | Some _ \<Rightarrow>
               if trailing p then (Some ENOTDIR, t)
               else (None, alter (\<lambda>_. None) (d @ [l]) t))
      | Inr _ \<Rightarrow> (Some EISDIR, t))"

definition syscall_Rmdir :: "node \<Rightarrow> string list \<Rightarrow> string \<Rightarrow> errno option \<times> node" where
  "syscall_Rmdir t base p =
     (case parent_last t base p of
        Inl e \<Rightarrow> (Some e, t)
      | Inr Root \<Rightarrow> (Some EBUSY, t)
      | Inr (Dot d) \<Rightarrow> (Some EINVAL, t)
      | Inr (DotDot d) \<Rightarrow> (Some ENOTEMPTY, t)
      | Inr (Norm d l) \<Rightarrow>
          (case lookup t (d @ [l]) of
             None \<Rightarrow> (Some ENOENT, t)
           | Some (Directory es) \<Rightarrow>
               if es = [] then (None, alter (\<lambda>_. None) (d @ [l]) t)
               else (Some ENOTEMPTY, t)
           | Some _ \<Rightarrow> (Some ENOTDIR, t)))"

definition syscall_Mkdir :: "node \<Rightarrow> string list \<Rightarrow> string \<Rightarrow> errno option \<times> node" where
  "syscall_Mkdir t base p =
     (case parent_last t base p of
        Inl e \<Rightarrow> (Some e, t)
      | Inr (Norm d l) \<Rightarrow>
          (case lookup t (d @ [l]) of
             None \<Rightarrow> (None, alter (\<lambda>_. Some (Directory [])) (d @ [l]) t)
           | Some _ \<Rightarrow> (Some EEXIST, t))
      | Inr _ \<Rightarrow> (Some EEXIST, t))"

subsection \<open>Walking a tree\<close>

text \<open>
  The entries a walk visits below a node, in the order of \<open>filepath.Walk\<close>: a directory is
  visited before its entries, and its entries in the order of their names (the walk
  sorts the names it reads). Each entry comes with the names that lead to it from the
  root of the walk.
\<close>

fun visit :: "string list \<Rightarrow> node \<Rightarrow> (string list \<times> node) list" where
  "visit rel (Directory es) =
     (rel, Directory es) # concat (map (\<lambda>(name, n). visit (rel @ [name]) n) (sort_key fst es))"
| "visit rel (Regular s) = [(rel, Regular s)]"
| "visit rel (Symlink s) = [(rel, Symlink s)]"

text \<open>
  \<open>filepath.Rel\<close> of the root of a walk and a path the walk makes: the names that lead
  from the root to the entry, joined by \<open>/\<close>, and \<open>.\<close> for the root itself.
\<close>

definition filepath_Rel :: "string list \<Rightarrow> string" where
  "filepath_Rel names = (if names = [] then ''.'' else strings_Join names ''/'')"

section \<open>The world of a run\<close>

text \<open>
  What a run can change: the lines printed by \<open>color.Magenta\<close>, the subprocesses started
  (name, working directory, arguments), and the file system with the working
  directory of the process (the names that lead to it from the root).
\<close>

record world =
  logs :: "string list"
  spawned :: "(string \<times> string \<times> string list) list"
  root :: node
  wd :: "string list"

text \<open>
  What the program reads from outside and does not decide: the configured password
  (\<open>viper.GetString("password")\<close>), the YAML parser, what a subprocess does to the file
  system and how it exits, the directory for temporary files with the random names
  \<open>os.MkdirTemp\<close> tries, and whether a write to a file fails (given the file, its
  contents and the data).
\<close>

record env =
  viper_password :: string
  yaml_Unmarshal :: "string \<Rightarrow> error + HelmChart"
  command_Run :: "string \<Rightarrow> string \<Rightarrow> string list \<Rightarrow> node \<Rightarrow> error option \<times> node"
  os_TempDir :: string
  random_names :: "string list"
  write_error :: "string list \<Rightarrow> string \<Rightarrow> string \<Rightarrow> error option"

definition color_Magenta :: "string \<Rightarrow> world \<Rightarrow> world" where
  "color_Magenta line w = w\<lparr>logs := logs w @ [line]\<rparr>"

subsection \<open>Library calls\<close>

text \<open>
  \<open>os.Lstat\<close> does not follow a link that is the last element of the path, \<open>os.Stat\<close>
  and \<open>os.Open\<close> do. An open file is known by the place it was found at.
\<close>

definition os_Lstat :: "string \<Rightarrow> world \<Rightarrow> error + node" where
  "os_Lstat p w =
     (case resolve False False (root w) (wd w) p of
        Found q \<Rightarrow>
          (case lookup (root w) q of
             Some n \<Rightarrow> Inr n
           | None \<Rightarrow> Inl (PathError ''lstat'' p ENOENT))
      | Missing q \<Rightarrow> Inl (PathError ''lstat'' p ENOENT)
      | Failed e \<Rightarrow> Inl (PathError ''lstat'' p e))"

definition os_Stat :: "string \<Rightarrow> world \<Rightarrow> error + node" where
  "os_Stat p w =
     (case resolve True False (root w) (wd w) p of
        Found q \<Rightarrow>
          (case lookup (root w) q of
             Some n \<Rightarrow> Inr n
           | None \<Rightarrow> Inl (PathError ''stat'' p ENOENT))
      | Missing q \<Rightarrow> Inl (PathError ''stat'' p ENOENT)
      | Failed e \<Rightarrow> Inl (PathError ''stat'' p e))"

definition os_Open :: "string \<Rightarrow> world \<Rightarrow> error + string list" where
  "os_Open p w =
     (case resolve True False (root w) (wd w) p of
        Found q \<Rightarrow> Inr q
      | Missing q \<Rightarrow> Inl (PathError ''open'' p ENOENT)
      | Failed e \<Rightarrow> Inl (PathError ''open'' p e))"

definition ioutil_ReadFile :: "string \<Rightarrow> world \<Rightarrow> error + string" where
  "ioutil_ReadFile p w =
     (case os_Open p w of
        Inl e \<Rightarrow> Inl e
      | Inr q \<Rightarrow>
          (case lookup (root w) q of
             Some (Regular s) \<Rightarrow> Inr s
           | Some (Directory es) \<Rightarrow> Inl (PathError ''read'' p EISDIR)
           | _ \<Rightarrow> Inl (PathError ''read'' p EBADF)))"

text \<open>\<open>os.ReadDir\<close>: the names of a directory's entries, sorted.\<close>

definition os_ReadDir :: "string \<Rightarrow> world \<Rightarrow> error + string list" where
  "os_ReadDir p w =
     (case os_Open p w of
        Inl e \<Rightarrow> Inl e
      | Inr q \<Rightarrow>
          (case lookup (root w) q of
             Some (Directory es) \<Rightarrow> Inr (map fst (sort_key fst es))
           | _ \<Rightarrow> Inl (PathError ''readdirent'' p ENOTDIR)))"

text \<open>
  \<open>os.Create\<close> opens the file for writing: it is created empty, or truncated when it
  exists. A link is followed, also one whose target does not exist yet: the target is
  created. The call fails on a directory, and when the directory that is to hold the
  file does not exist.
\<close>

definition os_Create :: "string \<Rightarrow> world \<Rightarrow> (error + string list) \<times> world" where
  "os_Create p w =
     (case resolve True True (root w) (wd w) p of
        Failed e \<Rightarrow> (Inl (PathError ''open'' p e), w)
      | Missing q \<Rightarrow> (Inr q, w\<lparr>root := alter (\<lambda>_. Some (Regular [])) q (root w)\<rparr>)
      | Found q \<Rightarrow>
          (case lookup (root w) q of
             Some (Regular s) \<Rightarrow> (Inr q, w\<lparr>root := alter (\<lambda>_. Some (Regular [])) q (root w)\<rparr>)
           | _ \<Rightarrow> (Inl (PathError ''open'' p EISDIR), w)))"

text \<open>\<open>(*os.File).WriteString\<close>: the data is appended to the file, unless the write fails.\<close>

definition os_File_WriteString :: "env \<Rightarrow> string list \<Rightarrow> string \<Rightarrow> world \<Rightarrow> error option \<times> world" where
  "os_File_WriteString E h s w =
     (case lookup (root w) h of
        Some (Regular content) \<Rightarrow>
          (case write_error E h content s of
             Some e \<Rightarrow> (Some e, w)
           | None \<Rightarrow> (None, w\<lparr>root := alter (\<lambda>_. Some (Regular (content @ s))) h (root w)\<rparr>))
      | _ \<Rightarrow> (Some (PathError ''write'' (strings_Join h ''/'') EBADF), w))"

text \<open>
  \<open>os.Remove\<close> tries \<open>unlink\<close>, then \<open>rmdir\<close>; when both fail it returns the error of
  \<open>rmdir\<close>, unless that is \<open>ENOTDIR\<close>.
\<close>

definition os_Remove :: "string \<Rightarrow> world \<Rightarrow> error option \<times> world" where
  "os_Remove p w =
     (case syscall_Unlink (root w) (wd w) p of
        (None, t) \<Rightarrow> (None, w\<lparr>root := t\<rparr>)
      | (Some e, _) \<Rightarrow>
          (case syscall_Rmdir (root w) (wd w) p of
             (None, t) \<Rightarrow> (None, w\<lparr>root := t\<rparr>)
           | (Some e1, _) \<Rightarrow>
               (Some (PathError ''remove'' p (if e1 \<noteq> ENOTDIR then e1 else e)), w)))"

text \<open>
  \<open>os.RemoveAll\<close>, as the library has it on Unix. The empty path is no error. A path
  whose last element is \<open>.\<close> is refused. Then \<open>os.Remove\<close> is tried; when it fails
  because nothing is there, that is no error. Otherwise the path is split into the
  directory part and the last name, the directory part is opened, and the last name is
  removed from it with everything below it.
\<close>

definition endsWithDot :: "string \<Rightarrow> bool" where
  "endsWithDot p = (p = ''.'' \<or> suffix ''/.'' p)"

text \<open>
  \<open>splitPath\<close>: all leading slashes but one and the trailing slashes are dropped; the
  last name is what follows the last slash that is left (not counting the last
  character), the directory part is what stands before this slash, \<open>/\<close> when that is
  nothing, and \<open>.\<close> when there is no slash.
\<close>

fun strip_lead :: "string \<Rightarrow> string" where
  "strip_lead (a # b # r) =
     (if a = CHR ''/'' \<and> b = CHR ''/'' then strip_lead (b # r) else a # b # r)"
| "strip_lead p = p"

fun strip_trail :: "string \<Rightarrow> string" where
  "strip_trail p =
     (if 1 < length p \<and> last p = CHR ''/'' then strip_trail (butlast p) else p)"

declare strip_trail.simps [simp del]

definition splitPath :: "string \<Rightarrow> string \<times> string" where
  "splitPath p =
     (let q = strip_trail (strip_lead p);
          pre = rev (dropWhile (\<lambda>c. c \<noteq> CHR ''/'') (rev (butlast q)))
      in if pre = [] then (''.'', q)
         else (if length pre = 1 then ''/'' else butlast pre, drop (length pre) q))"

text \<open>
  \<open>removeAllFrom\<close>: the name \<open>base\<close> is removed from the open directory \<open>parent\<close>. When
  \<open>unlinkat\<close> says it is a directory, its entries are removed, each with what is below
  it (nothing is refused, there being no permissions), and then the directory itself;
  this last step fails when \<open>base\<close> is \<open>.\<close>, \<open>..\<close> or the root, after the entries are
  gone.
\<close>

definition removeAllFrom :: "string list \<Rightarrow> string \<Rightarrow> node \<Rightarrow> error option \<times> node" where
  "removeAllFrom parent base t =
     (case syscall_Unlink t parent base of
        (None, t') \<Rightarrow> (None, t')
      | (Some e, _) \<Rightarrow>
          if e = ENOENT then (None, t)
          else if e \<noteq> EISDIR then (Some (PathError ''unlinkat'' base e), t)
          else (case parent_last t parent base of
                  Inl e' \<Rightarrow> (Some (PathError ''fstatat'' base e'), t)
                | Inr Root \<Rightarrow> (Some (PathError ''unlinkat'' base EBUSY), empty_dir [] t)
                | Inr (Dot d) \<Rightarrow> (Some (PathError ''unlinkat'' base EINVAL), empty_dir d t)
                | Inr (DotDot d) \<Rightarrow>
                    (Some (PathError ''unlinkat'' base ENOTEMPTY), empty_dir (butlast d) t)
                | Inr (Norm d l) \<Rightarrow>
                    (None, alter (\<lambda>_. None) (d @ [l]) (empty_dir (d @ [l]) t))))"

definition os_RemoveAll :: "string \<Rightarrow> world \<Rightarrow> error option \<times> world" where
  "os_RemoveAll p w =
     (if p = [] then (None, w)
      else if endsWithDot p then (Some (PathError ''RemoveAll'' p EINVAL), w)
      else case os_Remove p w of
        (None, w') \<Rightarrow> (None, w')
      | (Some e, _) \<Rightarrow>
          if IsNotExist e then (None, w)
          else (case splitPath p of
                  (parentDir, base) \<Rightarrow>
                    (case os_Open parentDir w of
                       Inl e' \<Rightarrow> if IsNotExist e' then (None, w) else (Some e', w)
                     | Inr parent \<Rightarrow>
                         (case removeAllFrom parent base (root w) of
                            (None, t) \<Rightarrow> (None, w\<lparr>root := t\<rparr>)
                          | (Some (PathError op q c), t) \<Rightarrow>
                              (Some (PathError op (parentDir @ ''/'' @ q) c), w\<lparr>root := t\<rparr>)
                          | (Some e'', t) \<Rightarrow> (Some e'', w\<lparr>root := t\<rparr>)))))"

text \<open>
  \<open>os.MkdirTemp\<close>: an empty \<open>dir\<close> stands for the directory for temporary files; the
  random names are tried in turn until one does not exist yet. When \<open>mkdir\<close> fails
  because something is missing and the directory itself does not exist, the error of
  \<open>os.Stat\<close> on the directory is returned.
\<close>

fun mkdir_temp_try :: "string \<Rightarrow> string \<Rightarrow> string list \<Rightarrow> world \<Rightarrow> (error + string) \<times> world" where
  "mkdir_temp_try dir pre [] w =
     (Inl (PathError ''mkdirtemp'' (dir @ ''/'' @ pre @ ''*'') EEXIST), w)"
| "mkdir_temp_try dir pre (r # rs) w =
     (case syscall_Mkdir (root w) (wd w) (pre @ r) of
        (None, t) \<Rightarrow> (Inr (pre @ r), w\<lparr>root := t\<rparr>)
      | (Some e, _) \<Rightarrow>
          if e = EEXIST then mkdir_temp_try dir pre rs w
          else if e = ENOENT then
            (case os_Stat dir w of
               Inl e' \<Rightarrow>
                 if IsNotExist e' then (Inl e', w) else (Inl (PathError ''mkdir'' (pre @ r) e), w)
             | Inr n \<Rightarrow> (Inl (PathError ''mkdir'' (pre @ r) e), w))
          else (Inl (PathError ''mkdir'' (pre @ r) e), w))"

definition os_MkdirTemp :: "env \<Rightarrow> string \<Rightarrow> string \<Rightarrow> world \<Rightarrow> (error + string) \<times> world" where
  "os_MkdirTemp E dir pattern w =
     (let d = (if dir = [] then os_TempDir E else dir);
          pre = (if d \<noteq> [] \<and> last d = CHR ''/'' then d @ pattern else d @ ''/'' @ pattern)
      in mkdir_temp_try d pre (random_names E) w)"

text \<open>
  \<open>filepath.Walk\<close>. The root is looked at with \<open>os.Lstat\<close>. When that fails the
  function is called once, with the error; when the root is not a directory it is called
  on it. Otherwise it is called on the root, and then for every name in the directory,
  in the order of the names: the path of the entry is made with \<open>filepath.Join\<close>, which
  cleans it, and looked at with \<open>os.Lstat\<close>; when that fails the function is called with
  the error, and otherwise on the entry and on everything below it, in the order of
  \<open>visit\<close>. The function is given the names that lead from the root to the entry
  instead of the path; \<open>filepath_Rel\<close> makes the relative path of them. The function
  of this program changes nothing but the contents of one file and never asks to skip a
  directory, so the entries are those at the start of the walk.
\<close>

definition walk_items :: "string \<Rightarrow> world \<Rightarrow> (string list \<times> (error + node)) list" where
  "walk_items p w =
     (case os_Lstat p w of
        Inl e \<Rightarrow> [([], Inl e)]
      | Inr (Directory es) \<Rightarrow>
          ([], Inr (Directory es)) #
          concat (map (\<lambda>name. case os_Lstat (path_Join [p, name]) w of
                                 Inl e \<Rightarrow> [([name], Inl e)]
                               | Inr n \<Rightarrow> map (\<lambda>v. (fst v, Inr (snd v))) (visit [name] n))
                      (map fst (sort_key fst es)))
      | Inr n \<Rightarrow> [([], Inr n)])"

fun walk_all :: "(string list \<Rightarrow> node option \<Rightarrow> error option \<Rightarrow> world \<Rightarrow> error option \<times> world) \<Rightarrow>
                 (string list \<times> (error + node)) list \<Rightarrow> world \<Rightarrow> error option \<times> world" where
  "walk_all fn [] w = (None, w)"
| "walk_all fn ((rel, Inr n) # vs) w =
     (case fn rel (Some n) None w of
        (Some e, w') \<Rightarrow> (Some e, w')
      | (None, w') \<Rightarrow> walk_all fn vs w')"
| "walk_all fn ((rel, Inl e) # vs) w =
     (case fn rel None (Some e) w of
        (Some e', w') \<Rightarrow> (Some e', w')
      | (None, w') \<Rightarrow> walk_all fn vs w')"

definition filepath_Walk ::
  "string \<Rightarrow> (string list \<Rightarrow> node option \<Rightarrow> error option \<Rightarrow> world \<Rightarrow> error option \<times> world) \<Rightarrow>
   world \<Rightarrow> error option \<times> world" where
  "filepath_Walk p fn w = walk_all fn (walk_items p w) w"

section \<open>The program\<close>

record execOpts =
  Dir :: string
  Output :: "string option"

definition no_opts :: execOpts where
  "no_opts = \<lparr>Dir = [], Output = None\<rparr>"

subsection \<open>The process runner\<close>

text \<open>
  \<open>execCommand\<close> prints the command line, with \<open>--password <configured password>\<close>
  replaced, and runs the command. The line is modelled without the colour codes
  around it. Where the output of the subprocess goes is not modelled.
\<close>

definition log_line :: "string \<Rightarrow> string \<Rightarrow> string list \<Rightarrow> string" where
  "log_line pw name arg =
     (let args = strings_Join arg '' '';
          args = strings_ReplaceAll args (''--password '' @ pw) ''--password *****''
      in name @ '' '' @ args)"

definition execCommand :: "env \<Rightarrow> string \<Rightarrow> execOpts \<Rightarrow> string list \<Rightarrow> world \<Rightarrow> error option \<times> world" where
  "execCommand E name opts arg w =
     (let w1 = color_Magenta (log_line (viper_password E) name arg) w;
          (err, fs) = command_Run E name (Dir opts) arg (root w1)
      in (err, w1\<lparr>spawned := spawned w1 @ [(name, Dir opts, arg)], root := fs\<rparr>))"

text \<open>The first revision of the runner (the second source file): no replacement, no options.\<close>

definition execCommand_v0 :: "env \<Rightarrow> string \<Rightarrow> string list \<Rightarrow> world \<Rightarrow> error option \<times> world" where
  "execCommand_v0 E name arg w =
     (let w1 = color_Magenta (name @ '' '' @ strings_Join arg '' '') w;
          (err, fs) = command_Run E name [] arg (root w1)
      in (err, w1\<lparr>spawned := spawned w1 @ [(name, [], arg)], root := fs\<rparr>))"

subsection \<open>Cleaning, listing, temporary directory\<close>

definition removeOutputCommand :: "HelmChart \<Rightarrow> world \<Rightarrow> error option \<times> world" where
  "removeOutputCommand chart w =
     os_RemoveAll (Chart chart) (color_Magenta (''removing folder '' @ Chart chart) w)"

definition dirContentCommand :: "string \<Rightarrow> world \<Rightarrow> (error + string list) \<times> world" where
  "dirContentCommand dir w =
     (case os_ReadDir dir w of
        Inl e \<Rightarrow> (Inl e, w)
      | Inr c \<Rightarrow> (Inr (foldl (\<lambda>result f. result @ [f]) [] c), w))"

definition tempDirCommand :: "env \<Rightarrow> world \<Rightarrow> (error + string) \<times> world" where
  "tempDirCommand E w = os_MkdirTemp E [] ''helmt'' w"

subsection \<open>The kustomization file\<close>

definition kustomization_header :: string where
  "kustomization_header =
     ''apiVersion: kustomize.config.k8s.io/v1beta1'' @ [CHR 0x0A] @
     ''kind: Kustomization'' @ [CHR 0x0A] @
     ''resources:'' @ [CHR 0x0A]"

text \<open>
  The function given to the walk: one line for every entry that is not a directory and
  whose relative path is not \<open>kustomization.yaml\<close>. The walk never calls it without
  the entry's information and without an error; the program would panic there.
\<close>

definition walkFn ::
  "env \<Rightarrow> string list \<Rightarrow> string list \<Rightarrow> node option \<Rightarrow> error option \<Rightarrow> world \<Rightarrow> error option \<times> world" where
  "walkFn E kustomization rel info err w =
     (case err of
        Some e \<Rightarrow> (Some e, w)
      | None \<Rightarrow>
          (case info of
             None \<Rightarrow> (Some (Errorf ''invalid memory address or nil pointer dereference''), w)
           | Some n \<Rightarrow>
               if IsDir n then (None, w)
               else if filepath_Rel rel = ''kustomization.yaml'' then (None, w)
               else os_File_WriteString E kustomization
                      (''  - '' @ filepath_Rel rel @ [CHR 0x0A]) w))"

text \<open>
  The synthesizer creates the file, writes the header and walks the directory. Closing
  the file on return changes nothing in the model.
\<close>

definition generateKustomizationCommand :: "env \<Rightarrow> string \<Rightarrow> world \<Rightarrow> error option \<times> world" where
  "generateKustomizationCommand E directory w =
     (case os_Create (path_Join [directory, ''kustomization.yaml'']) w of
        (Inl e, w1) \<Rightarrow> (Some e, w1)
      | (Inr kustomization, w1) \<Rightarrow>
          (case os_File_WriteString E kustomization kustomization_header w1 of
             (Some e, w2) \<Rightarrow> (Some e, w2)
           | (None, w2) \<Rightarrow> filepath_Walk directory (walkFn E kustomization) w2))"

subsection \<open>The stages that can be replaced\<close>

text \<open>
  The package variables \<open>execute\<close>, \<open>removeOutput\<close>, \<open>generateKustomization\<close>,
  \<open>dirContent\<close> and \<open>tempDir\<close> hold the functions the pipeline calls; they start as the
  functions above.
\<close>

record hooks =
  execute :: "string \<Rightarrow> execOpts \<Rightarrow> string list \<Rightarrow> world \<Rightarrow> error option \<times> world"
  removeOutput :: "HelmChart \<Rightarrow> world \<Rightarrow> error option \<times> world"
  generateKustomization :: "string \<Rightarrow> world \<Rightarrow> error option \<times> world"
  dirContent :: "string \<Rightarrow> world \<Rightarrow> (error + string list) \<times> world"
  tempDir :: "world \<Rightarrow> (error + string) \<times> world"

definition default_hooks :: "env \<Rightarrow> hooks" where
  "default_hooks E =
     \<lparr>execute = execCommand E,
      removeOutput = removeOutputCommand,
      generateKustomization = generateKustomizationCommand E,
      dirContent = dirContentCommand,
      tempDir = tempDirCommand E\<rparr>"

subsection \<open>Loading the descriptor\<close>

definition readParameters :: "env \<Rightarrow> string \<Rightarrow> world \<Rightarrow> error + HelmChart" where
  "readParameters E filename w =
     (case ioutil_ReadFile filename w of
        Inl e \<Rightarrow> Inl e
      | Inr yamlFile \<Rightarrow>
          (case yaml_Unmarshal E yamlFile of
             Inl e \<Rightarrow> Inl e
           | Inr chart \<Rightarrow>
               (case validate_Struct chart of
                  Some e \<Rightarrow> Inl e
                | None \<Rightarrow> Inr chart)))"

subsection \<open>Version probe, render, fetch\<close>

definition HelmVersion :: "hooks \<Rightarrow> world \<Rightarrow> error option \<times> world" where
  "HelmVersion H w = execute H ''helm'' no_opts [''version''] w"

definition template_args ::
  "string \<Rightarrow> string \<Rightarrow> string list \<Rightarrow> string \<Rightarrow> bool \<Rightarrow> string \<Rightarrow> string list \<Rightarrow> string list" where
  "template_args name chart values namespace skipCRDs outputDir apiVersions =
     (let args = [''template'', name, chart];
          args = (if length namespace > 0 then args @ [''--namespace'', namespace] else args);
          args = (if \<not> skipCRDs then args @ [''--include-crds''] else args);
          args = args @ [''--skip-tests''];
          args = foldl (\<lambda>a valuesfile. a @ [''--values'', valuesfile]) args values;
          args = (if length outputDir > 0 then args @ [''--output-dir'', outputDir]
                  else args @ [''--output-dir'', ''.'']);
          args = (if length apiVersions > 0
                  then foldl (\<lambda>a apiversion. a @ [''--api-versions'', apiversion]) args apiVersions
                  else args)
      in args)"

definition template ::
  "hooks \<Rightarrow> string \<Rightarrow> string \<Rightarrow> string list \<Rightarrow> string \<Rightarrow> bool \<Rightarrow> string \<Rightarrow> string list \<Rightarrow>
   world \<Rightarrow> error option \<times> world" where
  "template H name chart values namespace skipCRDs outputDir apiVersions w =
     execute H ''helm'' no_opts
       (template_args name chart values namespace skipCRDs outputDir apiVersions) w"

definition fetch_args :: "string \<Rightarrow> string \<Rightarrow> string \<Rightarrow> string \<Rightarrow> string \<Rightarrow> string \<Rightarrow> string list" where
  "fetch_args repository chart version username password d =
     (let args = [''fetch''];
          args = args @ [''--repo'', repository];
          args = args @ [''--version'', version];
          args = args @ [''--destination'', d];
          args = (if username \<noteq> [] then args @ [''--username'', username] else args);
          args = (if password \<noteq> [] then args @ [''--password'', password] else args);
          args = args @ [chart]
      in args)"

definition fetch ::
  "hooks \<Rightarrow> string \<Rightarrow> string \<Rightarrow> string \<Rightarrow> string \<Rightarrow> string \<Rightarrow> world \<Rightarrow> (error + string) \<times> world" where
  "fetch H repository chart version username password w =
     (case tempDir H w of
        (Inl err, w1) \<Rightarrow>
          (Inl (Errorf (''failed to create temporary directory to download helm chart: '' @ Error err)), w1)
      | (Inr d, w1) \<Rightarrow>
          (case execute H ''helm'' no_opts (fetch_args repository chart version username password d) w1 of
             (Some err, w2) \<Rightarrow> (Inl err, w2)
           | (None, w2) \<Rightarrow>
               (case dirContent H d w2 of
                  (Inl err, w3) \<Rightarrow> (Inl err, w3)
                | (Inr content, w3) \<Rightarrow>
                    if length content \<noteq> 1
                    then (Inl (Errorf (''unexpected content in temporary directory '' @ d)), w3)
                    else (let result = path_Join [d, content ! 0]
                          in (Inr result, color_Magenta (''downloaded '' @ result) w3)))))"

subsection \<open>The pipeline\<close>

definition HelmTemplate ::
  "env \<Rightarrow> hooks \<Rightarrow> string \<Rightarrow> bool \<Rightarrow> string \<Rightarrow> string \<Rightarrow> world \<Rightarrow> error option \<times> world" where
  "HelmTemplate E H filename clean username password w =
     (case readParameters E filename w of
        Inl err \<Rightarrow> (Some err, w)
      | Inr chart \<Rightarrow>
     (case HelmVersion H w of
        (Some err, w1) \<Rightarrow> (Some err, w1)
      | (None, w1) \<Rightarrow>
     (case fetch H (Repository chart) (Chart chart) (Version chart) username password w1 of
        (Inl err, w2) \<Rightarrow> (Some err, w2)
      | (Inr chartFile, w2) \<Rightarrow>
     (case (if clean then removeOutput H chart w2 else (None, w2)) of
        (Some err, w3) \<Rightarrow> (Some err, w3)
      | (None, w3) \<Rightarrow>
     (case template H (Name chart) chartFile (Values chart) (Namespace chart) (SkipCRDs chart)
             (OutputDir chart) (ApiVersions chart) w3 of
        (Some err, w4) \<Rightarrow> (Some err, w4)
      | (None, w4) \<Rightarrow>
          (if GenerateKustomization (PostProcess chart)
           then (case generateKustomization H (Chart chart) w4 of
                   (Some err, w5) \<Rightarrow> (Some err, w5)
                 | (None, w5) \<Rightarrow> (None, w5))
           else (None, w4)))))))"

section \<open>What the kustomization file is meant to hold\<close>



section \<open>What the log line is meant to be\<close>

text \<open>
  The argument list with every password that follows \<open>--password\<close> replaced by
  \<open>*****\<close>. This is the line the replacement aims at; it is compared with the line
  \<open>execCommand\<close> prints.
\<close>

fun mask_args :: "string \<Rightarrow> string list \<Rightarrow> string list" where
  "mask_args pw (x # y # ys) =
     (if x = ''--password'' \<and> y = pw then x # ''*****'' # mask_args pw ys
      else x # mask_args pw (y # ys))"
| "mask_args pw xs = xs"

section \<open>An example run\<close>

text \<open>
  A descriptor, an external tool and a file system to run the program on: the descriptor
  file \<open>helmt.yaml\<close> lies in the working directory \<open>/work\<close>, beside a descriptor
  without a version; the tool's \<open>fetch\<close> puts
  one archive into the temporary directory, its \<open>template\<close> writes two manifests below
  \<open>nginx\<close>.
\<close>

definition chart_ex :: HelmChart where
  "chart_ex =
     \<lparr>Chart = ''nginx'', Version = ''1.2.3'', Repository = ''https://example/charts'',
      Name = ''web'', Namespace = [], Values = [], SkipCRDs = False,
      PostProcess = \<lparr>GenerateKustomization = True\<rparr>, OutputDir = [], ApiVersions = []\<rparr>"

definition helm_ex :: "string \<Rightarrow> string \<Rightarrow> string list \<Rightarrow> node \<Rightarrow> error option \<times> node" where
  "helm_ex name dir arg fs =
     (case arg of
        [] \<Rightarrow> (Some (ExitError ''exit status 1''), fs)
      | sub # _ \<Rightarrow>
          if sub = ''fetch''
          then (None, alter (\<lambda>_. Some (Regular ''chart''))
                        [''tmp'', ''helmt1'', ''nginx-1.2.3.tgz''] fs)
          else if sub = ''template''
          then (None, alter (\<lambda>_. Some (Directory [(''sub'', Directory [(''b.yaml'', Regular ''b'')]),
                                                   (''a.yaml'', Regular ''a'')]))
                        [''work'', ''nginx''] fs)
          else (None, fs))"

definition env_ex :: env where
  "env_ex =
     \<lparr>viper_password = ''hunter2'',
      yaml_Unmarshal =
        (\<lambda>s. if s = ''nginx'' then Inr chart_ex
             else if s = ''no version'' then Inr (chart_ex\<lparr>Version := []\<rparr>)
             else Inl (YamlError ''cannot unmarshal'')),
      command_Run = helm_ex,
      os_TempDir = ''/tmp'',
      random_names = [''1'', ''2''],
      write_error = (\<lambda>_ _ _. None)\<rparr>"

definition world_ex :: world where
  "world_ex =
     \<lparr>logs = [], spawned = [],
      root = Directory [(''tmp'', Directory []),
                        (''work'', Directory [(''helmt.yaml'', Regular ''nginx''),
                                              (''bad.yaml'', Regular ''no version'')])],
      wd = [''work'']\<rparr>"










text \<open>A tool that exits with status zero and writes nothing, and a tool that cannot be run.\<close>

definition env_idle :: env where
  "env_idle = env_ex\<lparr>command_Run := (\<lambda>name dir arg fs. (None, fs))\<rparr>"

definition env_nohelm :: env where
  "env_nohelm =
     env_ex\<lparr>command_Run := (\<lambda>name dir arg fs. (Some (ExitError ''exit status 127''), fs))\<rparr>"

section \<open>The argument lists\<close>

lemma foldl_append_pairs:
  "foldl (\<lambda>a v. a @ [k, v]) acc xs = acc @ concat (map (\<lambda>v. [k, v]) xs)"
  by (induction xs arbitrary: acc) simp_all

lemma template_args_closed:
  "template_args name chart values namespace skipCRDs outputDir apiVersions =
     [''template'', name, chart] @
     (if namespace \<noteq> [] then [''--namespace'', namespace] else []) @
     (if \<not> skipCRDs then [''--include-crds''] else []) @
     [''--skip-tests''] @
     concat (map (\<lambda>f. [''--values'', f]) values) @
     [''--output-dir'', if outputDir \<noteq> [] then outputDir else ''.''] @
     concat (map (\<lambda>v. [''--api-versions'', v]) apiVersions)"
  unfolding template_args_def Let_def foldl_append_pairs
  by (cases apiVersions) simp_all

text \<open>
  C4. Whatever the runner is, \<open>template\<close> calls it on \<open>helm\<close> with exactly this
  argument list: \<open>template\<close>, the name, the artifact path; \<open>--namespace ns\<close> iff the
  namespace is not empty; \<open>--include-crds\<close> iff \<open>skipCRDs\<close> is false; \<open>--skip-tests\<close>; one
  \<open>--values f\<close> pair per values file, in order; \<open>--output-dir\<close> with the output
  directory, or \<open>.\<close> when it is empty; one \<open>--api-versions v\<close> pair per API version, in
  order.
\<close>

theorem template_argument_list:
  "template H name chart values namespace skipCRDs outputDir apiVersions w =
   execute H ''helm'' no_opts
     ([''template'', name, chart] @
      (if namespace \<noteq> [] then [''--namespace'', namespace] else []) @
      (if \<not> skipCRDs then [''--include-crds''] else []) @
      [''--skip-tests''] @
      concat (map (\<lambda>f. [''--values'', f]) values) @
      [''--output-dir'', if outputDir \<noteq> [] then outputDir else ''.''] @
      concat (map (\<lambda>v. [''--api-versions'', v]) apiVersions)) w"
  unfolding template_def template_args_closed ..

theorem template_argument_list_witness:
  "template (default_hooks env_ex) ''web'' ''/tmp/helmt1/nginx-1.2.3.tgz'' [''v1.yaml'', ''v2.yaml'']
     ''prod'' True ''out'' [''batch/v1''] world_ex =
   execCommand env_ex ''helm'' no_opts
     [''template'', ''web'', ''/tmp/helmt1/nginx-1.2.3.tgz'', ''--namespace'', ''prod'',
      ''--skip-tests'', ''--values'', ''v1.yaml'', ''--values'', ''v2.yaml'',
      ''--output-dir'', ''out'', ''--api-versions'', ''batch/v1''] world_ex"
  using template_argument_list [of "default_hooks env_ex" "''web''"
          "''/tmp/helmt1/nginx-1.2.3.tgz''" "[''v1.yaml'', ''v2.yaml'']" "''prod''" True "''out''"
          "[''batch/v1'']" world_ex]
  by (simp add: default_hooks_def)

lemma fetch_args_closed:
  "fetch_args repository chart version username password d =
     [''fetch'', ''--repo'', repository, ''--version'', version, ''--destination'', d] @
     (if username \<noteq> [] then [''--username'', username] else []) @
     (if password \<noteq> [] then [''--password'', password] else []) @
     [chart]"
  by (simp add: fetch_args_def)

lemma mkdir_temp_try_keeps:
  "mkdir_temp_try dir pre rs w = (r, w') \<Longrightarrow> spawned w' = spawned w \<and> logs w' = logs w"
  by (induction rs) (auto split: prod.splits option.splits sum.splits if_splits)

lemma tempDirCommand_keeps:
  "tempDirCommand E w = (r, w') \<Longrightarrow> spawned w' = spawned w \<and> logs w' = logs w"
  unfolding tempDirCommand_def os_MkdirTemp_def Let_def by (rule mkdir_temp_try_keeps)

lemma execCommand_spawned:
  "spawned (snd (execCommand E name opts arg w)) = spawned w @ [(name, Dir opts, arg)]"
  by (simp add: execCommand_def color_Magenta_def Let_def split: prod.splits)

lemma dirContentCommand_world: "snd (dirContentCommand d w) = w"
  by (simp add: dirContentCommand_def split: sum.splits)

text \<open>
  C7. The argument list of the fetch is \<open>fetch\<close>, \<open>--repo\<close> with the repository,
  \<open>--version\<close> with the version, \<open>--destination\<close> with the temporary directory, then
  \<open>--username u\<close> iff the user name is not empty, then \<open>--password p\<close> iff the password is
  not empty, and the chart identifier last; and once the temporary directory \<open>d\<close> is
  made, \<open>fetch\<close> starts exactly one subprocess, \<open>helm\<close> with this list.
\<close>

theorem fetch_argument_list:
  "tempDirCommand E w = (Inr d, w1) \<Longrightarrow>
   fetch_args repository chart version username password d =
     [''fetch'', ''--repo'', repository, ''--version'', version, ''--destination'', d] @
     (if username \<noteq> [] then [''--username'', username] else []) @
     (if password \<noteq> [] then [''--password'', password] else []) @
     [chart] \<and>
   spawned (snd (fetch (default_hooks E) repository chart version username password w)) =
     spawned w @
     [(''helm'', [],
       [''fetch'', ''--repo'', repository, ''--version'', version, ''--destination'', d] @
       (if username \<noteq> [] then [''--username'', username] else []) @
       (if password \<noteq> [] then [''--password'', password] else []) @
       [chart])]"
proof (intro conjI)
  assume td: "tempDirCommand E w = (Inr d, w1)"
  let ?args = "fetch_args repository chart version username password d"
  have sp1: "spawned w1 = spawned w"
    using tempDirCommand_keeps [OF td] by simp
  obtain err w2 where ex: "execCommand E ''helm'' no_opts ?args w1 = (err, w2)"
    by (cases "execCommand E ''helm'' no_opts ?args w1")
  have sp2: "spawned w2 = spawned w1 @ [(''helm'', [], ?args)]"
    using execCommand_spawned [of E "''helm''" no_opts ?args w1] ex by (simp add: no_opts_def)
  have dc: "\<And>r w3. dirContentCommand d w2 = (r, w3) \<Longrightarrow> w3 = w2"
    using dirContentCommand_world [of d w2] by simp
  have "spawned (snd (fetch (default_hooks E) repository chart version username password w)) =
        spawned w2"
    using td ex dc
    by (auto simp: fetch_def default_hooks_def color_Magenta_def Let_def
             split: prod.splits sum.splits option.splits)
  then show "spawned (snd (fetch (default_hooks E) repository chart version username password w)) =
     spawned w @
     [(''helm'', [],
       [''fetch'', ''--repo'', repository, ''--version'', version, ''--destination'', d] @
       (if username \<noteq> [] then [''--username'', username] else []) @
       (if password \<noteq> [] then [''--password'', password] else []) @
       [chart])]"
    using sp1 sp2 by (simp only: fetch_args_closed)
next
  show "fetch_args repository chart version username password d =
     [''fetch'', ''--repo'', repository, ''--version'', version, ''--destination'', d] @
     (if username \<noteq> [] then [''--username'', username] else []) @
     (if password \<noteq> [] then [''--password'', password] else []) @
     [chart]" by (rule fetch_args_closed)
qed

theorem fetch_argument_list_witness:
  "fst (tempDirCommand env_ex world_ex) = Inr ''/tmp/helmt1'' \<and>
   spawned (snd (fetch (default_hooks env_ex) ''https://example/charts'' ''nginx'' ''1.2.3'' []
                   ''hunter2'' world_ex)) =
   [(''helm'', [], [''fetch'', ''--repo'', ''https://example/charts'', ''--version'', ''1.2.3'',
       ''--destination'', ''/tmp/helmt1'', ''--password'', ''hunter2'', ''nginx''])]"
proof -
  have td: "tempDirCommand env_ex world_ex =
            (Inr ''/tmp/helmt1'', snd (tempDirCommand env_ex world_ex))"
    by code_simp
  have a: "fst (tempDirCommand env_ex world_ex) = Inr ''/tmp/helmt1''"
    by code_simp
  have c: "spawned world_ex = []"
    by (simp add: world_ex_def)
  show ?thesis
    using a c fetch_argument_list [OF td, of "''https://example/charts''" "''nginx''" "''1.2.3''"
                 "[]" "''hunter2''"]
    by simp
qed

section \<open>Loading and validating the descriptor\<close>

text \<open>
  C3. When the file is read and parsed into a descriptor: if one of \<open>chart\<close>,
  \<open>version\<close>, \<open>repository\<close>, \<open>name\<close> is empty, \<open>readParameters\<close> fails with the
  validation error that lists the failed fields, and the pipeline returns this error with
  the world as it was: no stage has run, whatever the stages are. If all four are not
  empty, \<open>readParameters\<close> returns the parsed descriptor.
\<close>

theorem readParameters_required_fields:
  "ioutil_ReadFile filename w = Inr yamlFile \<Longrightarrow> yaml_Unmarshal E yamlFile = Inr chart \<Longrightarrow>
   (Chart chart = [] \<or> Version chart = [] \<or> Repository chart = [] \<or> Name chart = [] \<longrightarrow>
      required_failures chart \<noteq> [] \<and>
      readParameters E filename w = Inl (ValidationErrors (required_failures chart)) \<and>
      HelmTemplate E H filename clean username password w =
        (Some (ValidationErrors (required_failures chart)), w)) \<and>
   (Chart chart \<noteq> [] \<and> Version chart \<noteq> [] \<and> Repository chart \<noteq> [] \<and> Name chart \<noteq> [] \<longrightarrow>
      readParameters E filename w = Inr chart)"
  by (auto simp: readParameters_def HelmTemplate_def validate_Struct_def required_failures_def)

theorem readParameters_required_fields_witness:
  "readParameters env_ex ''bad.yaml'' world_ex = Inl (ValidationErrors [''Version'']) \<and>
   HelmTemplate env_ex (default_hooks env_ex) ''bad.yaml'' True [] ''hunter2'' world_ex =
     (Some (ValidationErrors [''Version'']), world_ex) \<and>
   readParameters env_ex ''helmt.yaml'' world_ex = Inr chart_ex"
proof -
  have r1: "ioutil_ReadFile ''bad.yaml'' world_ex = Inr ''no version''" by code_simp
  have y1: "yaml_Unmarshal env_ex ''no version'' = Inr (chart_ex\<lparr>Version := []\<rparr>)"
    by (simp add: env_ex_def)
  have r2: "ioutil_ReadFile ''helmt.yaml'' world_ex = Inr ''nginx''" by code_simp
  have y2: "yaml_Unmarshal env_ex ''nginx'' = Inr chart_ex" by (simp add: env_ex_def)
  have f: "required_failures (chart_ex\<lparr>Version := []\<rparr>) = [''Version'']"
    by (simp add: required_failures_def chart_ex_def)
  have g: "Chart chart_ex \<noteq> [] \<and> Version chart_ex \<noteq> [] \<and> Repository chart_ex \<noteq> [] \<and> Name chart_ex \<noteq> []"
    by (simp add: chart_ex_def)
  show ?thesis
    using readParameters_required_fields [OF r1 y1, of "default_hooks env_ex" True "[]" "''hunter2''"] readParameters_required_fields [OF r2 y2] f g
    by simp
qed

section \<open>The fetched artifact\<close>

text \<open>
  C2. When the temporary directory \<open>d\<close> is made, the subprocess succeeds and the
  directory is listed: if the listing does not have exactly one entry, \<open>fetch\<close> fails
  with an error that names \<open>d\<close>, and the pipeline returns this error with the world as
  the listing left it, so that nothing ran after it (whatever the stages are: a runner
  that records its calls in the world would show a call of the render stage); with
  exactly one entry, \<open>fetch\<close> returns the join of \<open>d\<close> and the entry's name.
\<close>

theorem fetch_exactly_one_artifact:
  "readParameters E filename w0 = Inr c \<Longrightarrow>
   HelmVersion H w0 = (None, w) \<Longrightarrow>
   tempDir H w = (Inr d, w1) \<Longrightarrow>
   execute H ''helm'' no_opts
     (fetch_args (Repository c) (Chart c) (Version c) username password d) w1 = (None, w2) \<Longrightarrow>
   dirContent H d w2 = (Inr content, w3) \<Longrightarrow>
   (length content \<noteq> 1 \<longrightarrow>
      fetch H (Repository c) (Chart c) (Version c) username password w =
        (Inl (Errorf (''unexpected content in temporary directory '' @ d)), w3) \<and>
      HelmTemplate E H filename clean username password w0 =
        (Some (Errorf (''unexpected content in temporary directory '' @ d)), w3)) \<and>
   (\<forall>entry. content = [entry] \<longrightarrow>
      fetch H (Repository c) (Chart c) (Version c) username password w =
        (Inr (path_Join [d, entry]), color_Magenta (''downloaded '' @ path_Join [d, entry]) w3))"
  by (simp add: fetch_def HelmTemplate_def Let_def)

theorem fetch_exactly_one_artifact_witness:
  "fst (fetch (default_hooks env_ex) ''https://example/charts'' ''nginx'' ''1.2.3'' [] ''hunter2''
          (snd (HelmVersion (default_hooks env_ex) world_ex))) = Inr ''/tmp/helmt1/nginx-1.2.3.tgz'' \<and>
   fst (HelmTemplate env_idle (default_hooks env_idle) ''helmt.yaml'' False [] ''hunter2'' world_ex) =
     Some (Errorf ''unexpected content in temporary directory /tmp/helmt1'') \<and>
   spawned (snd (HelmTemplate env_idle (default_hooks env_idle) ''helmt.yaml'' False [] ''hunter2'' world_ex)) =
     [(''helm'', [], [''version'']),
      (''helm'', [], [''fetch'', ''--repo'', ''https://example/charts'', ''--version'', ''1.2.3'',
                      ''--destination'', ''/tmp/helmt1'', ''--password'', ''hunter2'', ''nginx''])]"
proof -
  let ?H = "default_hooks env_ex"
  let ?w = "snd (HelmVersion ?H world_ex)"
  let ?w1 = "snd (tempDir ?H ?w)"
  let ?a = "fetch_args (Repository chart_ex) (Chart chart_ex) (Version chart_ex) [] ''hunter2'' ''/tmp/helmt1''"
  let ?w2 = "snd (execute ?H ''helm'' no_opts ?a ?w1)"
  let ?w3 = "snd (dirContent ?H ''/tmp/helmt1'' ?w2)"
  have rp: "readParameters env_ex ''helmt.yaml'' world_ex = Inr chart_ex" by code_simp
  have hv: "HelmVersion ?H world_ex = (None, ?w)" by code_simp
  have td: "tempDir ?H ?w = (Inr ''/tmp/helmt1'', ?w1)" by code_simp
  have ex: "execute ?H ''helm'' no_opts ?a ?w1 = (None, ?w2)" by code_simp
  have dc: "dirContent ?H ''/tmp/helmt1'' ?w2 = (Inr [''nginx-1.2.3.tgz''], ?w3)" by code_simp
  have pj: "path_Join [''/tmp/helmt1'', ''nginx-1.2.3.tgz''] = ''/tmp/helmt1/nginx-1.2.3.tgz''"
    by code_simp
  have ce: "Repository chart_ex = ''https://example/charts'' \<and> Chart chart_ex = ''nginx'' \<and>
            Version chart_ex = ''1.2.3''" by (simp add: chart_ex_def)
  have one: "fst (fetch ?H ''https://example/charts'' ''nginx'' ''1.2.3'' [] ''hunter2'' ?w) =
             Inr ''/tmp/helmt1/nginx-1.2.3.tgz''"
    using fetch_exactly_one_artifact [OF rp hv td ex dc, of False] pj ce by simp
  let ?H' = "default_hooks env_idle"
  let ?v = "snd (HelmVersion ?H' world_ex)"
  let ?v1 = "snd (tempDir ?H' ?v)"
  let ?v2 = "snd (execute ?H' ''helm'' no_opts ?a ?v1)"
  let ?v3 = "snd (dirContent ?H' ''/tmp/helmt1'' ?v2)"
  have rp': "readParameters env_idle ''helmt.yaml'' world_ex = Inr chart_ex" by code_simp
  have hv': "HelmVersion ?H' world_ex = (None, ?v)" by code_simp
  have td': "tempDir ?H' ?v = (Inr ''/tmp/helmt1'', ?v1)" by code_simp
  have ex': "execute ?H' ''helm'' no_opts ?a ?v1 = (None, ?v2)" by code_simp
  have dc': "dirContent ?H' ''/tmp/helmt1'' ?v2 = (Inr [], ?v3)" by code_simp
  have sp: "spawned ?v3 =
     [(''helm'', [], [''version'']),
      (''helm'', [], [''fetch'', ''--repo'', ''https://example/charts'', ''--version'', ''1.2.3'',
                      ''--destination'', ''/tmp/helmt1'', ''--password'', ''hunter2'', ''nginx''])]"
    by code_simp
  have none: "HelmTemplate env_idle ?H' ''helmt.yaml'' False [] ''hunter2'' world_ex =
              (Some (Errorf (''unexpected content in temporary directory '' @ ''/tmp/helmt1'')), ?v3)"
    using fetch_exactly_one_artifact [OF rp' hv' td' ex' dc', of False] by simp
  show ?thesis
    unfolding none using one sp by simp
qed

section \<open>The order of the stages\<close>

text \<open>
  C9. The pipeline runs load and validate, version probe, fetch, clean (when asked),
  render, kustomization (when asked), each on the world the stage before it left. When a
  stage fails, the pipeline returns that stage's error as it is, with the world as that
  stage left it: no later stage has run and the stage is not tried again. When no stage
  fails it returns no error.
\<close>

theorem HelmTemplate_fail_fast:
  "(\<forall>e. readParameters E filename w = Inl e \<longrightarrow>
      HelmTemplate E H filename clean username password w = (Some e, w)) \<and>
   (\<forall>c. readParameters E filename w = Inr c \<longrightarrow>
     (\<forall>e w1. HelmVersion H w = (Some e, w1) \<longrightarrow>
        HelmTemplate E H filename clean username password w = (Some e, w1)) \<and>
     (\<forall>w1. HelmVersion H w = (None, w1) \<longrightarrow>
       (\<forall>e w2. fetch H (Repository c) (Chart c) (Version c) username password w1 = (Inl e, w2) \<longrightarrow>
          HelmTemplate E H filename clean username password w = (Some e, w2)) \<and>
       (\<forall>chartFile w2.
          fetch H (Repository c) (Chart c) (Version c) username password w1 = (Inr chartFile, w2) \<longrightarrow>
         (\<forall>e w3. clean \<and> removeOutput H c w2 = (Some e, w3) \<longrightarrow>
            HelmTemplate E H filename clean username password w = (Some e, w3)) \<and>
         (\<forall>w3. (if clean then removeOutput H c w2 = (None, w3) else w3 = w2) \<longrightarrow>
           (\<forall>e w4. template H (Name c) chartFile (Values c) (Namespace c) (SkipCRDs c)
                      (OutputDir c) (ApiVersions c) w3 = (Some e, w4) \<longrightarrow>
              HelmTemplate E H filename clean username password w = (Some e, w4)) \<and>
           (\<forall>w4. template H (Name c) chartFile (Values c) (Namespace c) (SkipCRDs c)
                      (OutputDir c) (ApiVersions c) w3 = (None, w4) \<longrightarrow>
             (\<forall>e w5. GenerateKustomization (PostProcess c) \<and>
                      generateKustomization H (Chart c) w4 = (Some e, w5) \<longrightarrow>
                HelmTemplate E H filename clean username password w = (Some e, w5)) \<and>
             (\<forall>w5. (if GenerateKustomization (PostProcess c)
                     then generateKustomization H (Chart c) w4 = (None, w5) else w5 = w4) \<longrightarrow>
                HelmTemplate E H filename clean username password w = (None, w5)))))))"
  by (auto simp: HelmTemplate_def)

theorem HelmTemplate_fail_fast_witness:
  "HelmTemplate env_nohelm (default_hooks env_nohelm) ''helmt.yaml'' True [] ''hunter2'' world_ex =
     (Some (ExitError ''exit status 127''),
      world_ex\<lparr>logs := [''helm version''], spawned := [(''helm'', [], [''version''])]\<rparr>) \<and>
   fst (HelmTemplate env_ex (default_hooks env_ex) ''helmt.yaml'' True [] ''hunter2'' world_ex) = None \<and>
   logs (snd (HelmTemplate env_ex (default_hooks env_ex) ''helmt.yaml'' True [] ''hunter2'' world_ex)) =
     [''helm version'',
      ''helm fetch --repo https://example/charts --version 1.2.3 --destination /tmp/helmt1 --password ***** nginx'',
      ''downloaded /tmp/helmt1/nginx-1.2.3.tgz'',
      ''removing folder nginx'',
      ''helm template web /tmp/helmt1/nginx-1.2.3.tgz --include-crds --skip-tests --output-dir .'']"
proof -
  let ?N = "default_hooks env_nohelm"
  have rpn: "readParameters env_nohelm ''helmt.yaml'' world_ex = Inr chart_ex" by code_simp
  have hvn: "HelmVersion ?N world_ex =
             (Some (ExitError ''exit status 127''),
              world_ex\<lparr>logs := [''helm version''], spawned := [(''helm'', [], [''version''])]\<rparr>)"
    by code_simp
  note n1 = HelmTemplate_fail_fast [of env_nohelm "''helmt.yaml''" world_ex ?N True "[]" "''hunter2''",
              THEN conjunct2, rule_format, OF rpn]
  note n2 = n1 [THEN conjunct1, rule_format, OF hvn]
  let ?H = "default_hooks env_ex"
  let ?w1 = "snd (HelmVersion ?H world_ex)"
  let ?w2 = "snd (fetch ?H (Repository chart_ex) (Chart chart_ex) (Version chart_ex) [] ''hunter2'' ?w1)"
  let ?w3 = "snd (removeOutput ?H chart_ex ?w2)"
  let ?cf = "''/tmp/helmt1/nginx-1.2.3.tgz''"
  let ?w4 = "snd (template ?H (Name chart_ex) ?cf (Values chart_ex) (Namespace chart_ex)
                   (SkipCRDs chart_ex) (OutputDir chart_ex) (ApiVersions chart_ex) ?w3)"
  let ?w5 = "snd (generateKustomization ?H (Chart chart_ex) ?w4)"
  have rp: "readParameters env_ex ''helmt.yaml'' world_ex = Inr chart_ex" by code_simp
  have hv: "HelmVersion ?H world_ex = (None, ?w1)" by code_simp
  have ft: "fetch ?H (Repository chart_ex) (Chart chart_ex) (Version chart_ex) [] ''hunter2'' ?w1 =
            (Inr ?cf, ?w2)" by code_simp
  have rm: "if True then removeOutput ?H chart_ex ?w2 = (None, ?w3) else ?w3 = ?w2" by code_simp
  have tp: "template ?H (Name chart_ex) ?cf (Values chart_ex) (Namespace chart_ex)
              (SkipCRDs chart_ex) (OutputDir chart_ex) (ApiVersions chart_ex) ?w3 = (None, ?w4)"
    by code_simp
  have gk: "if GenerateKustomization (PostProcess chart_ex)
            then generateKustomization ?H (Chart chart_ex) ?w4 = (None, ?w5) else ?w5 = ?w4"
    by code_simp
  have lg: "logs ?w5 =
     [''helm version'',
      ''helm fetch --repo https://example/charts --version 1.2.3 --destination /tmp/helmt1 --password ***** nginx'',
      ''downloaded /tmp/helmt1/nginx-1.2.3.tgz'',
      ''removing folder nginx'',
      ''helm template web /tmp/helmt1/nginx-1.2.3.tgz --include-crds --skip-tests --output-dir .'']"
    by code_simp
  note s1 = HelmTemplate_fail_fast [of env_ex "''helmt.yaml''" world_ex ?H True "[]" "''hunter2''",
              THEN conjunct2, rule_format, OF rp]
  note s2 = s1 [THEN conjunct2, rule_format, OF hv]
  note s3 = s2 [THEN conjunct2, rule_format, OF ft]
  note s4 = s3 [THEN conjunct2, rule_format, OF rm]
  note s5 = s4 [THEN conjunct2, rule_format, OF tp]
  note s6 = s5 [THEN conjunct2, rule_format, OF gk]
  show ?thesis
    unfolding n2 s6 using lg by simp
qed


section \<open>The password in the log\<close>

subsection \<open>Replacing in a string\<close>

lemma ReplaceAll_Nil: "old \<noteq> [] \<Longrightarrow> strings_ReplaceAll [] old new = []"
  by (simp add: strings_ReplaceAll.simps)

lemma ReplaceAll_hit:
  assumes "old \<noteq> []"
  shows "strings_ReplaceAll (old @ r) old new = new @ strings_ReplaceAll r old new"
proof -
  obtain c cs where o: "old = c # cs" using assms by (cases old) auto
  show ?thesis unfolding o by (simp add: strings_ReplaceAll.simps)
qed

lemma prefix_take_ge: "prefix us r \<Longrightarrow> length us \<le> k \<Longrightarrow> prefix us (take k r)"
  by (metis append_eq_conv_conj min.absorb1 prefix_def take_is_prefix take_take)

lemma prefix_append_take:
  assumes "prefix xs (ys @ r)" and "ys \<noteq> []"
  shows "prefix xs (ys @ take (length xs - 1) r)"
proof -
  from assms(1) consider "prefix xs ys" | us where "xs = ys @ us" "prefix us r"
    by (auto simp: prefix_append)
  then show ?thesis
  proof cases
    case 1
    then show ?thesis by (simp add: prefix_append)
  next
    case 2
    have "length us \<le> length xs - 1" using 2(1) assms(2) by (cases ys) auto
    then have "prefix us (take (length xs - 1) r)" using 2(2) by (rule prefix_take_ge [rotated])
    then show ?thesis using 2(1) by simp
  qed
qed

lemma ReplaceAll_skip:
  "old \<noteq> [] \<Longrightarrow> \<not> sublist old (t @ take (length old - 1) r) \<Longrightarrow>
   strings_ReplaceAll (t @ r) old new = t @ strings_ReplaceAll r old new"
proof (induction t)
  case Nil
  then show ?case by simp
next
  case (Cons c t)
  have np: "\<not> prefix old (c # t @ r)"
  proof
    assume "prefix old (c # t @ r)"
    then have "prefix old ((c # t) @ take (length old - 1) r)"
      using prefix_append_take [of old "c # t" r] by simp
    then show False using Cons.prems(2) by (meson prefix_imp_sublist)
  qed
  have "\<not> sublist old (t @ take (length old - 1) r)"
    using Cons.prems(2) by (metis append_Cons sublist_Cons_right)
  then have IH: "strings_ReplaceAll (t @ r) old new = t @ strings_ReplaceAll r old new"
    using Cons.IH Cons.prems(1) by blast
  show ?case using np IH Cons.prems(1) by (simp add: strings_ReplaceAll.simps)
qed


lemma ReplaceAll_miss:
  "P \<noteq> [] \<Longrightarrow> hd P \<noteq> c \<Longrightarrow>
   strings_ReplaceAll (c # r) (P @ S) new = c # strings_ReplaceAll r (P @ S) new"
  by (cases P) (simp_all add: strings_ReplaceAll.simps)

lemma prefix_no_sep:
  assumes "prefix S (y @ c # rest)" and "c \<notin> set S"
  shows "prefix S y"
proof -
  from assms(1) consider "prefix S y" | us where "S = y @ us" "prefix us (c # rest)"
    by (auto simp: prefix_append)
  then show ?thesis
  proof cases
    case 1 then show ?thesis .
  next
    case 2
    then show ?thesis using assms(2) by (cases us) auto
  qed
qed

lemma mask_args_head: "\<exists>ms. mask_args S (y # ys) = y # ms"
  by (cases ys) auto

lemma strings_Join_head: "\<exists>r. strings_Join (y # ys) sep = y @ r"
  by (cases ys) auto

lemma strings_Join_Cons: "zs \<noteq> [] \<Longrightarrow> strings_Join (x # zs) sep = x @ sep @ strings_Join zs sep"
  by (cases zs) auto

lemma prefix_Join_token:
  assumes "prefix S (strings_Join (y # ys) [c])" and "c \<notin> set S"
  shows "prefix S y"
proof (cases ys)
  case Nil
  then show ?thesis using assms by simp
next
  case (Cons z zs)
  then have "strings_Join (y # ys) [c] = y @ c # strings_Join (z # zs) [c]" by simp
  then show ?thesis using assms prefix_no_sep by metis
qed

lemma no_hit_in_token:
  assumes S: "S \<noteq> []" and sp: "c \<notin> set S"
    and P: "P \<noteq> []" "last P = c" "c \<notin> set (butlast P)"
    and h1: "\<not> sublist S (x @ [c])"
    and h2: "\<not> prefix S J"
  shows "\<not> sublist (P @ S) ((x @ [c]) @ take (length (P @ S) - 1) J)"
proof
  let ?K = "take (length (P @ S) - 1) J"
  assume "sublist (P @ S) ((x @ [c]) @ ?K)"
  then obtain a b where "(x @ [c]) @ ?K = a @ (P @ S) @ b"
    unfolding sublist_def by blast
  then have eq: "(x @ [c]) @ ?K = (a @ P) @ (S @ b)" by simp
  have K: "prefix ?K J" by (rule take_is_prefix)
  have noK: "?K \<noteq> S @ b" for b
  proof
    assume "?K = S @ b"
    then have "prefix S ?K" by simp
    then show False using K h2 by (meson prefix_order.trans)
  qed
  from eq consider
      us where "x @ [c] = (a @ P) @ us" "us @ ?K = S @ b"
    | us where "(x @ [c]) @ us = a @ P" "?K = us @ (S @ b)"
    unfolding append_eq_append_conv2 [of "x @ [c]" ?K "a @ P" "S @ b"] by blast
  then show False
  proof cases
    case 1
    show False
    proof (cases "us = []")
      case True
      then show False using 1(2) noK [of b] by simp
    next
      case False
      have "last (x @ [c]) = last us" using 1(1) False by simp
      then have lu: "last us = c" by simp
      from 1(2) have "prefix S (us @ ?K)" by (simp add: prefix_def)
      then consider "prefix S us" | vs where "S = us @ vs"
        unfolding prefix_append by blast
      then show False
      proof cases
        case 1
        then have "sublist S us" by (rule prefix_imp_sublist)
        moreover have "sublist us ((a @ P) @ us)" by (rule sublist_append_leftI)
        ultimately have "sublist S ((a @ P) @ us)" by (rule sublist_order.order_trans)
        then show False using h1 \<open>x @ [c] = (a @ P) @ us\<close> by simp
      next
        case 2
        then have "last us \<in> set S" using False by simp
        then show False using lu sp by simp
      qed
    qed
  next
    case 2
    show False
    proof (cases "us = []")
      case True
      then show False using 2(2) noK [of b] by simp
    next
      case False
      have "length ?K \<le> length P + length S - 1" by simp
      moreover have "length ?K = length us + length S + length b" using 2(2)
        by (metis length_append add.assoc)
      ultimately have lus: "length us < length P" using P(1) S by (cases P) auto
      from 2(1) consider
          ws where "x @ [c] = a @ ws" "ws @ us = P"
        | ws where "(x @ [c]) @ ws = a" "us = ws @ P"
        unfolding append_eq_append_conv2 [of "x @ [c]" us a P] by blast
      then show False
      proof cases
        case 1
        have wne: "ws \<noteq> []" using 1(2) lus by auto
        then have "last ws = last (x @ [c])" using 1(1) by simp
        then have lw: "last ws = c" by simp
        have "butlast (ws @ us) = ws @ butlast us" using False by (simp add: butlast_append)
        then have "set ws \<subseteq> set (butlast P)" using 1(2) by (metis Un_upper1 set_append)
        moreover have "last ws \<in> set ws" using wne by simp
        ultimately show False using lw P(3) by auto
      next
        case 2
        then show False using lus by simp
      qed
    qed
  qed
qed


lemma ReplaceAll_absent:
  "old \<noteq> [] \<Longrightarrow> \<not> sublist old t \<Longrightarrow> strings_ReplaceAll t old new = t"
  using ReplaceAll_skip [of old t "[]" new] by (simp add: ReplaceAll_Nil)

lemma ReplaceAll_mask:
  assumes S: "S \<noteq> []" and sp: "CHR '' '' \<notin> set S"
  shows "\<not> sublist S (strings_Join (mask_args S args) '' '') \<Longrightarrow>
         strings_ReplaceAll (strings_Join args '' '') (''--password '' @ S) ''--password *****'' =
         strings_Join (mask_args S args) '' ''"
proof -
  define P where "P = ''--password ''"
  define f where "f = ''--password''"
  define m where "m = ''*****''"
  define c where "c = CHR '' ''"
  have Pf: "P = f @ [c]" by (simp add: P_def f_def c_def)
  have P1: "P \<noteq> []" "last P = c" "c \<notin> set (butlast P)" "hd P \<noteq> c"
    by (simp_all add: P_def c_def)
  have sp': "c \<notin> set S" using sp by (simp add: c_def)
  have mask: "mask_args S (x # y # ys) =
      (if x = f \<and> y = S then x # m # mask_args S ys else x # mask_args S (y # ys))" for x y ys
    by (simp add: f_def m_def)
  have old: "P @ S \<noteq> []" using P1(1) by simp
  have main: "\<not> sublist S (strings_Join (mask_args S args) [c]) \<Longrightarrow>
         strings_ReplaceAll (strings_Join args [c]) (P @ S) (P @ m) =
         strings_Join (mask_args S args) [c]" for args
  proof (induction args rule: measure_induct_rule [of length])
    case (less args)
    show ?case
    proof (cases args)
      case Nil
      then show ?thesis using old by (simp add: ReplaceAll_Nil)
    next
      case (Cons x rest)
      show ?thesis
      proof (cases rest)
        case Nil
        have "\<not> sublist S x" using less.prems Cons Nil by simp
        moreover have "sublist S (P @ S)" by simp
        ultimately have "\<not> sublist (P @ S) x" by (meson sublist_order.order_trans)
        then show ?thesis using Cons Nil old by (simp add: ReplaceAll_absent)
      next
        case (Cons y ys)
        note args = \<open>args = x # rest\<close> Cons
        show ?thesis
        proof (cases "x = f \<and> y = S")
          case True
          have msk: "mask_args S args = f # m # mask_args S ys"
            unfolding args mask using True by simp
          show ?thesis
          proof (cases ys)
            case Nil
            have "strings_Join args [c] = (P @ S) @ []" using args True Nil Pf by simp
            moreover have "strings_Join (mask_args S args) [c] = P @ m" using msk Nil Pf by simp
            ultimately show ?thesis using ReplaceAll_hit [OF old, of "[]" "P @ m"] old
              by (simp add: ReplaceAll_Nil)
          next
            case (Cons z zs)
            have j: "strings_Join args [c] = (P @ S) @ c # strings_Join ys [c]"
              using args True Cons Pf by simp
            obtain ms where ms: "mask_args S ys = z # ms"
              using mask_args_head [of S z zs] Cons by auto
            have jm: "strings_Join (mask_args S args) [c] = (P @ m) @ c # strings_Join (mask_args S ys) [c]"
              using msk ms Pf by simp
            have "\<not> sublist S (strings_Join (mask_args S ys) [c])"
            proof
              assume "sublist S (strings_Join (mask_args S ys) [c])"
              moreover have "sublist (strings_Join (mask_args S ys) [c])
                                ((P @ m @ [c]) @ strings_Join (mask_args S ys) [c])"
                by (rule sublist_append_leftI)
              ultimately have "sublist S ((P @ m @ [c]) @ strings_Join (mask_args S ys) [c])"
                by (rule sublist_order.order_trans)
              then show False using less.prems jm by simp
            qed
            moreover have "length ys < length args" using args by simp
            ultimately have IH: "strings_ReplaceAll (strings_Join ys [c]) (P @ S) (P @ m) =
                            strings_Join (mask_args S ys) [c]"
              using less.IH by blast
            have "strings_ReplaceAll (strings_Join args [c]) (P @ S) (P @ m) =
                  (P @ m) @ strings_ReplaceAll (c # strings_Join ys [c]) (P @ S) (P @ m)"
              unfolding j by (rule ReplaceAll_hit [OF old])
            also have "\<dots> = (P @ m) @ c # strings_ReplaceAll (strings_Join ys [c]) (P @ S) (P @ m)"
              using ReplaceAll_miss [OF P1(1) P1(4)] by simp
            finally show ?thesis using IH jm by simp
          qed
        next
          case False
          have msk: "mask_args S args = x # mask_args S (y # ys)"
            unfolding args mask by (simp only: False if_False)
          obtain ms where ms: "mask_args S (y # ys) = y # ms"
            using mask_args_head [of S y ys] by auto
          have jm: "strings_Join (mask_args S args) [c] =
                    (x @ [c]) @ strings_Join (mask_args S (y # ys)) [c]"
            using msk ms by simp
          have j: "strings_Join args [c] = (x @ [c]) @ strings_Join (y # ys) [c]"
            using args by simp
          have h1: "\<not> sublist S (x @ [c])"
          proof
            assume "sublist S (x @ [c])"
            moreover have "sublist (x @ [c]) ((x @ [c]) @ strings_Join (mask_args S (y # ys)) [c])"
              by (rule sublist_append_rightI)
            ultimately have "sublist S ((x @ [c]) @ strings_Join (mask_args S (y # ys)) [c])"
              by (rule sublist_order.order_trans)
            then show False using less.prems jm by simp
          qed
          have nr: "\<not> sublist S (strings_Join (mask_args S (y # ys)) [c])"
          proof
            assume "sublist S (strings_Join (mask_args S (y # ys)) [c])"
            moreover have "sublist (strings_Join (mask_args S (y # ys)) [c])
                             ((x @ [c]) @ strings_Join (mask_args S (y # ys)) [c])"
              by (rule sublist_append_leftI)
            ultimately have "sublist S ((x @ [c]) @ strings_Join (mask_args S (y # ys)) [c])"
              by (rule sublist_order.order_trans)
            then show False using less.prems jm by simp
          qed
          have h2: "\<not> prefix S (strings_Join (y # ys) [c])"
          proof
            assume "prefix S (strings_Join (y # ys) [c])"
            then have "prefix S y" using sp' by (rule prefix_Join_token)
            moreover obtain r where "strings_Join (mask_args S (y # ys)) [c] = y @ r"
              using ms strings_Join_head [of y ms "[c]"] by auto
            ultimately have "prefix S (strings_Join (mask_args S (y # ys)) [c])"
              by (simp add: prefix_def) (metis append.assoc)
            then show False using nr by (meson prefix_imp_sublist)
          qed
          have "length (y # ys) < length args" using args by simp
          then have IH: "strings_ReplaceAll (strings_Join (y # ys) [c]) (P @ S) (P @ m) =
                         strings_Join (mask_args S (y # ys)) [c]"
            using less.IH nr by blast
          have "strings_ReplaceAll (strings_Join args [c]) (P @ S) (P @ m) =
                (x @ [c]) @ strings_ReplaceAll (strings_Join (y # ys) [c]) (P @ S) (P @ m)"
            unfolding j
            by (rule ReplaceAll_skip [OF old no_hit_in_token [OF S sp' P1(1) P1(2) P1(3) h1 h2]])
          then show ?thesis using IH jm by simp
        qed
      qed
    qed
  qed
  have "''--password *****'' = P @ m" by (simp add: P_def m_def)
  moreover have "'' '' = [c]" by (simp add: c_def)
  ultimately show "\<not> sublist S (strings_Join (mask_args S args) '' '') \<Longrightarrow>
         strings_ReplaceAll (strings_Join args '' '') (''--password '' @ S) ''--password *****'' =
         strings_Join (mask_args S args) '' ''"
    using main [of args] unfolding P_def [symmetric] by simp
qed

subsection \<open>The line that is printed\<close>

lemma log_line_masked:
  assumes "S \<noteq> []" and "CHR '' '' \<notin> set S"
    and "\<not> sublist S (name @ '' '' @ strings_Join (mask_args S arg) '' '')"
  shows "log_line S name arg = name @ '' '' @ strings_Join (mask_args S arg) '' ''"
proof -
  have "\<not> sublist S (strings_Join (mask_args S arg) '' '')"
  proof
    assume "sublist S (strings_Join (mask_args S arg) '' '')"
    moreover have "sublist (strings_Join (mask_args S arg) '' '')
                     ((name @ '' '') @ strings_Join (mask_args S arg) '' '')"
      by (rule sublist_append_leftI)
    ultimately have "sublist S ((name @ '' '') @ strings_Join (mask_args S arg) '' '')"
      by (rule sublist_order.order_trans)
    then show False using assms(3) by simp
  qed
  then show ?thesis
    using ReplaceAll_mask [OF assms(1) assms(2), of arg] by (simp add: log_line_def)
qed

lemma execCommand_logs:
  "logs (snd (execCommand E name opts arg w)) = logs w @ [log_line (viper_password E) name arg]"
  by (simp add: execCommand_def color_Magenta_def Let_def split: prod.splits)

text \<open>
  C1, as the code has it. Let the configured password be not empty and without a space.
  For every command name and argument list, with the password after \<open>--password\<close> any
  number of times and anywhere in the list: if the password does not occur in the line
  with these occurrences masked, then \<open>execCommand\<close> prints exactly this masked line,
  and nothing else, so the line it prints does not contain the password.
\<close>

theorem execCommand_masks_password:
  "viper_password E \<noteq> [] \<Longrightarrow> CHR '' '' \<notin> set (viper_password E) \<Longrightarrow>
   \<not> sublist (viper_password E)
       (name @ '' '' @ strings_Join (mask_args (viper_password E) arg) '' '') \<Longrightarrow>
   logs (snd (execCommand E name opts arg w)) =
     logs w @ [name @ '' '' @ strings_Join (mask_args (viper_password E) arg) '' ''] \<and>
   \<not> sublist (viper_password E) (last (logs (snd (execCommand E name opts arg w))))"
  by (simp add: execCommand_logs log_line_masked)

theorem execCommand_masks_password_witness:
  "logs (snd (execCommand env_ex ''helm'' no_opts
       [''fetch'', ''--password'', ''hunter2'', ''--username'', ''admin'', ''--password'', ''hunter2'',
        ''nginx''] world_ex)) =
     [''helm fetch --password ***** --username admin --password ***** nginx''] \<and>
   \<not> sublist ''hunter2'' ''helm fetch --password ***** --username admin --password ***** nginx''"
proof -
  let ?arg = "[''fetch'', ''--password'', ''hunter2'', ''--username'', ''admin'', ''--password'',
               ''hunter2'', ''nginx'']"
  have pw: "viper_password env_ex = ''hunter2''" by (simp add: env_ex_def)
  have h1: "viper_password env_ex \<noteq> []" by (simp add: pw)
  have h2: "CHR '' '' \<notin> set (viper_password env_ex)" by (simp add: pw)
  have m: "''helm'' @ '' '' @ strings_Join (mask_args (viper_password env_ex) ?arg) '' '' =
           ''helm fetch --password ***** --username admin --password ***** nginx''"
    by code_simp
  have h3: "\<not> sublist (viper_password env_ex)
              (''helm'' @ '' '' @ strings_Join (mask_args (viper_password env_ex) ?arg) '' '')"
    by code_simp
  have l: "logs world_ex = []" by (simp add: world_ex_def)
  show ?thesis
    using execCommand_masks_password [OF h1 h2 h3, of no_opts world_ex] h3
    unfolding m l pw by simp
qed

text \<open>
  C1 as stated does not hold: only the text \<open>--password\<close>, a space and the password is
  replaced. A password that is also the user name is printed with \<open>--username\<close>.
\<close>

theorem execCommand_logs_password_elsewhere:
  "viper_password env_ex = ''hunter2'' \<and>
   logs (snd (execCommand env_ex ''helm'' no_opts
          (fetch_args ''https://example/charts'' ''nginx'' ''1.2.3'' ''hunter2'' ''hunter2''
             ''/tmp/helmt1'') world_ex)) =
     [''helm fetch --repo https://example/charts --version 1.2.3 --destination /tmp/helmt1 --username hunter2 --password ***** nginx''] \<and>
   sublist ''hunter2''
     ''helm fetch --repo https://example/charts --version 1.2.3 --destination /tmp/helmt1 --username hunter2 --password ***** nginx''"
  by code_simp

text \<open>
  A password with spaces can be printed although it occurs only after \<open>--password\<close>:
  the replacement may start at an earlier \<open>--password\<close> and so leave the text of
  the real one behind.
\<close>

lemma execCommand_logs_password_with_spaces:
  "\<not> sublist ''--password --password --password''
       (strings_Join (mask_args ''--password --password --password''
          [''--password'', ''--password'', ''--password --password --password'',
           ''--password'', ''--password'']) '' '') \<and>
   sublist ''--password --password --password''
       (log_line ''--password --password --password'' ''helm''
          [''--password'', ''--password'', ''--password --password --password'',
           ''--password'', ''--password''])"
  by code_simp

text \<open>
  The runner takes the password from the configuration, not from the argument of
  \<open>fetch\<close>: a password that is passed to \<open>fetch\<close> while none is configured is printed
  after the mask.
\<close>

lemma execCommand_logs_password_not_configured:
  "log_line [] ''helm''
     (fetch_args ''https://example/charts'' ''nginx'' ''1.2.3'' [] ''hunter2'' ''/tmp/helmt1'') =
   ''helm fetch --repo https://example/charts --version 1.2.3 --destination /tmp/helmt1 --password *****hunter2 nginx''"
  by code_simp

text \<open>The first revision of the runner prints the arguments as they are.\<close>

lemma execCommand_v0_logs:
  "logs (snd (execCommand_v0 E name arg w)) = logs w @ [name @ '' '' @ strings_Join arg '' '']"
  by (simp add: execCommand_v0_def color_Magenta_def Let_def split: prod.splits)

section \<open>Lemmas on paths\<close>

lemma split_on_not_Nil [simp]: "split_on c s \<noteq> []"
  by (induction s) (auto split: list.splits)

lemma split_on_append:
  "split_on c (a @ c # b) = split_on c a @ split_on c b"
  by (induction a) (auto split: list.splits)

lemma split_on_absent: "c \<notin> set s \<Longrightarrow> split_on c s = [s]"
  by (induction s) auto

lemma split_on_Join:
  "cs \<noteq> [] \<Longrightarrow> \<forall>e \<in> set cs. c \<notin> set e \<Longrightarrow> split_on c (strings_Join cs [c]) = cs"
proof (induction cs)
  case Nil
  then show ?case by simp
next
  case (Cons x cs)
  show ?case
  proof (cases cs)
    case Nil
    then show ?thesis using Cons.prems by (simp add: split_on_absent)
  next
    case (Cons y ys)
    have "strings_Join (x # cs) [c] = x @ c # strings_Join cs [c]" using Cons by simp
    then have "split_on c (strings_Join (x # cs) [c]) = split_on c x @ split_on c (strings_Join cs [c])"
      by (simp only: split_on_append)
    then show ?thesis using Cons.prems Cons.IH Cons by (simp add: split_on_absent)
  qed
qed


lemma strings_Join_not_Nil: "cs \<noteq> [] \<Longrightarrow> hd cs \<noteq> [] \<Longrightarrow> strings_Join cs sep \<noteq> []"
  by (induction cs sep rule: strings_Join.induct) auto

lemma strings_Join_hd: "cs \<noteq> [] \<Longrightarrow> hd cs \<noteq> [] \<Longrightarrow> hd (strings_Join cs sep) = hd (hd cs)"
  by (induction cs sep rule: strings_Join.induct) auto

lemma strings_Join_snoc:
  "xs \<noteq> [] \<Longrightarrow> strings_Join (xs @ [l]) sep = strings_Join xs sep @ sep @ l"
  by (induction xs sep rule: strings_Join.induct) auto

lemma strings_Join_butlast:
  "xs \<noteq> [] \<Longrightarrow> butlast xs \<noteq> [] \<Longrightarrow>
   strings_Join xs sep = strings_Join (butlast xs) sep @ sep @ last xs"
  using strings_Join_snoc [of "butlast xs" "last xs" sep] by simp

lemma plain_nonempty: "plain x \<Longrightarrow> x \<noteq> []"
  by (simp add: plain_def)

lemma plain_noslash: "plain x \<Longrightarrow> CHR ''/'' \<notin> set x"
  by (simp add: plain_def)




lemma plain_last_not_slash: "plain x \<Longrightarrow> last x \<noteq> CHR ''/''"
  using plain_noslash [of x] plain_nonempty [of x] last_in_set [of x] by metis

lemma plain_hd_not_slash: "plain x \<Longrightarrow> hd x \<noteq> CHR ''/''"
  using plain_noslash [of x] plain_nonempty [of x] hd_in_set [of x] by metis

text \<open>A path made of plain names, joined by slashes.\<close>

lemma plain_path_not_Nil:
  assumes "names \<noteq> []" "\<forall>n \<in> set names. plain n"
  shows "strings_Join names ''/'' \<noteq> []"
  using assms strings_Join_not_Nil [of names] plain_nonempty by simp

lemma plain_path_last:
  assumes "names \<noteq> []" "\<forall>n \<in> set names. plain n"
  shows "last (strings_Join names sep) = last (last names)"
proof (cases "butlast names = []")
  case True
  then have "names = [last names]" using assms(1)
    by (metis append_butlast_last_id append_Nil)
  then have "strings_Join names sep = last names" by (metis strings_Join.simps(2))
  then show ?thesis by simp
next
  case False
  have "last names \<noteq> []" using assms plain_nonempty by simp
  then show ?thesis using strings_Join_butlast [OF assms(1) False, of sep] by simp
qed

lemma plain_path_not_rooted:
  assumes "names \<noteq> []" "\<forall>n \<in> set names. plain n"
  shows "\<not> rooted (strings_Join names ''/'')"
proof -
  have h: "hd names \<noteq> []" using assms plain_nonempty by simp
  have "hd (strings_Join names ''/'') = hd (hd names)" using strings_Join_hd [OF assms(1) h] .
  moreover have "hd (hd names) \<noteq> CHR ''/''" using assms plain_hd_not_slash by simp
  ultimately show ?thesis
    using plain_path_not_Nil [OF assms] by (cases "strings_Join names ''/''") (simp_all add: rooted_def)
qed

lemma plain_path_not_trailing:
  assumes "names \<noteq> []" "\<forall>n \<in> set names. plain n"
  shows "\<not> trailing (strings_Join names ''/'')"
proof -
  have "last (last names) \<noteq> CHR ''/''" using assms plain_last_not_slash by simp
  then show ?thesis using plain_path_last [OF assms] by (simp add: trailing_def)
qed

lemma plain_path_split:
  assumes "names \<noteq> []" "\<forall>n \<in> set names. plain n"
  shows "split_on CHR ''/'' (strings_Join names ''/'') = names"
  using split_on_Join [of names "CHR ''/''"] assms plain_noslash by simp

lemma plain_path_elems:
  assumes "names \<noteq> []" "\<forall>n \<in> set names. plain n"
  shows "path_elems (strings_Join names ''/'') = names"
proof -
  have "filter (\<lambda>c. c \<noteq> []) names = names" using assms(2) plain_nonempty by (simp add: filter_id_conv)
  then show ?thesis by (simp add: path_elems_def plain_path_split [OF assms])
qed

lemma plain_elems: "plain x \<Longrightarrow> path_elems x = [x]"
  using plain_path_elems [of "[x]"] by simp

lemma plain_not_rooted: "plain x \<Longrightarrow> \<not> rooted x"
  using plain_path_not_rooted [of "[x]"] by simp

lemma plain_not_trailing: "plain x \<Longrightarrow> \<not> trailing x"
  using plain_path_not_trailing [of "[x]"] by simp






section \<open>Lemmas on the file system\<close>





text \<open>Resolving plain names that lead through directories.\<close>

lemma namei_Nil_dir:
  "lookup t p = Some (Directory ds) \<Longrightarrow> namei n f c s t p [] = Found p"
  by simp














lemma color_Magenta_sel [simp]:
  "root (color_Magenta l w) = root w" "wd (color_Magenta l w) = wd w"
  "spawned (color_Magenta l w) = spawned w" "logs (color_Magenta l w) = logs w @ [l]"
  by (simp_all add: color_Magenta_def)








































section \<open>Cleaning the output\<close>




section \<open>The kustomization file\<close>






section \<open>Where the kustomization file goes\<close>





end
